theory Spec2Isabelle
  imports Complex_Main "HOL-Library.AList" "HOL-Library.Sublist"
begin

section \<open>JavaScript values\<close>

text \<open>
  The values that flow through the metadata path of the plugin are JSON-shaped JavaScript
  values. An object is an association list in property order; an array is an object as
  well and may carry named own properties next to its elements (the second component).
  Numbers are idealised as reals. \<open>undefined\<close> is \<open>None\<close> of an option type.
\<close>

datatype jsvalue =
    JNull
  | JBool bool
  | JNum real
  | JStr string
  | JArr "jsvalue list" "(string \<times> jsvalue) list"
  | JObj "(string \<times> jsvalue) list"

text \<open>What JavaScript throws: an \<open>Error\<close> with a message, or a \<open>TypeError\<close>.\<close>

datatype error = Error string | TypeError string

text \<open>ToBoolean, as used by \<open>if (x)\<close>, \<open>x && y\<close> and \<open>x || y\<close>.\<close>

fun truthy :: "jsvalue \<Rightarrow> bool" where
  "truthy JNull = False"
| "truthy (JBool b) = b"
| "truthy (JNum r) = (r \<noteq> 0)"
| "truthy (JStr s) = (s \<noteq> [])"
| "truthy (JArr xs ps) = True"
| "truthy (JObj ps) = True"

text \<open>
  The assignment \<open>v.k = x\<close> in a module (strict mode): on an object or an array the
  property is written, overwriting an existing one in place and appending a new one; on a
  primitive it throws a TypeError. (On \<open>null\<close> it throws as well.)
\<close>

fun set_property :: "jsvalue \<Rightarrow> string \<Rightarrow> jsvalue \<Rightarrow> error + jsvalue" where
  "set_property (JObj ps) k x = Inr (JObj (AList.update k x ps))"
| "set_property (JArr xs ps) k x = Inr (JArr xs (AList.update k x ps))"
| "set_property v k x = Inl (TypeError (''Cannot create property '' @ k))"



section \<open>Documents and store objects\<close>

text \<open>
  A Genkit \<open>Document\<close>, as far as this plugin reads and builds it: \<open>data\<close>, \<open>dataType\<close>
  and \<open>metadata\<close>; \<open>Document.fromData\<close> builds one from the three.
\<close>

record document =
  data :: string
  dataType :: "string option"
  doc_metadata :: "jsvalue option"

definition fromData :: "string \<Rightarrow> string \<Rightarrow> jsvalue option \<Rightarrow> document" where
  "fromData contentText contentType md =
     \<lparr>data = contentText, dataType = Some contentType, doc_metadata = md\<rparr>"

text \<open>One result of the embedder for a document: the vector (and nothing else is read).\<close>

record embedding_result =
  embedding :: "real list"

text \<open>
  A \<open>WeaviateObject\<close> returned by a query. The properties of the collections this plugin
  writes are all of data type text, so a property value is a string. \<open>obj_metadata\<close> is
  the store's own metadata of the result, with the optional \<open>distance\<close>.
\<close>

record return_metadata =
  distance :: "real option"

record weaviate_object =
  uuid :: string
  obj_properties :: "(string \<times> string) list"
  obj_metadata :: "return_metadata option"

section \<open>Retriever: from store objects to documents\<close>

text \<open>
  \<open>JSON.parse\<close> is taken as a parameter: \<open>None\<close> is its SyntaxError. The block
  \<open>if (properties.metadata) { try { ... } catch { ... } }\<close> of the retriever:
  an absent or empty string is falsy and leaves \<open>metadata\<close> undefined.
\<close>

definition parseMetadata ::
  "(string \<Rightarrow> jsvalue option) \<Rightarrow> (string \<times> string) list \<Rightarrow> jsvalue option" where
  "parseMetadata JSON_parse props =
     (case map_of props ''metadata'' of
        None \<Rightarrow> None
      | Some s \<Rightarrow>
          if s = [] then None
          else (case JSON_parse s of
                  Some v \<Rightarrow> Some v
                | None \<Rightarrow> Some (JObj [(''metadata'', JStr s)])))"

text \<open>\<open>obj.metadata?.distance\<close>\<close>

definition reported_distance :: "weaviate_object \<Rightarrow> real option" where
  "reported_distance obj = (case obj_metadata obj of None \<Rightarrow> None | Some m \<Rightarrow> distance m)"

text \<open>\<open>(properties.k || "") as string\<close>\<close>

definition prop_or_empty :: "(string \<times> string) list \<Rightarrow> string \<Rightarrow> string" where
  "prop_or_empty props k = (case map_of props k of None \<Rightarrow> [] | Some s \<Rightarrow> s)"

text \<open>
  The callback of \<open>results.objects.map\<close>: the distance is written into the metadata
  when \<open>obj.metadata?.distance !== undefined && metadata\<close>.
\<close>

definition toDocument ::
  "(string \<Rightarrow> jsvalue option) \<Rightarrow> weaviate_object \<Rightarrow> error + document" where
  "toDocument JSON_parse obj =
     (let properties = obj_properties obj;
          contentText = prop_or_empty properties ''content'';
          contentType = prop_or_empty properties ''contentType'';
          md = parseMetadata JSON_parse properties
      in case (reported_distance obj, md) of
           (Some d, Some v) \<Rightarrow>
             if truthy v
             then (case set_property v ''_distance'' (JNum d) of
                     Inl e \<Rightarrow> Inl e
                   | Inr v' \<Rightarrow> Inr (fromData contentText contentType (Some v')))
             else Inr (fromData contentText contentType md)
         | _ \<Rightarrow> Inr (fromData contentText contentType md))"

text \<open>\<open>Array.prototype.map\<close> with a callback that may throw: the first throw ends it.\<close>

fun map_throwing :: "('a \<Rightarrow> error + 'b) \<Rightarrow> 'a list \<Rightarrow> error + 'b list" where
  "map_throwing f [] = Inr []"
| "map_throwing f (x # xs) =
     (case f x of
        Inl e \<Rightarrow> Inl e
      | Inr y \<Rightarrow> (case map_throwing f xs of Inl e \<Rightarrow> Inl e | Inr ys \<Rightarrow> Inr (y # ys)))"

section \<open>The store and the requests sent to it\<close>

text \<open>
  The Weaviate client library and the store behind it are external. Every call the wrapper
  makes to them is appended to a trace of requests; what the store answers is a parameter
  (\<open>backend\<close>), a function of the requests made so far.
\<close>

datatype weaviate_client = WeaviateClient nat

datatype filter_value = FilterValue string

datatype vectorizer = VectorizerNone | VectorizerModule string

datatype data_type = TEXT | INT | NUMBER | BOOLEAN | DATE | UUID | BLOB | OBJECT

record property_config =
  prop_name :: string
  prop_dataType :: data_type
  prop_description :: "string option"

record create_config =
  cc_name :: string
  cc_description :: "string option"
  cc_vectorizers :: vectorizer
  cc_properties :: "property_config list"

record data_object =
  dat_id :: "string option"
  dat_properties :: "(string \<times> string) list"
  dat_vectors :: "real list"

record near_vector_options =
  nv_limit :: nat
  nv_returnMetadata :: "string list"
  nv_distance :: "real option"
  nv_filters :: "filter_value option"

datatype request =
    ConnectToWeaviateCloud string "(string \<times> string) list option" "string option"
  | ConnectToLocal string nat nat "(string \<times> string) list option"
  | ConfigGet string
  | CollectionsCreate create_config
  | InsertMany string "data_object list"
  | NearVector string "real list" near_vector_options
  | DeleteById string string
  | CollectionsDelete string
  | AggregateOverAll string

text \<open>The collection configuration the store returns; only its name is read.\<close>

record returned_config =
  rc_name :: string

record backend =
  config_get :: "request list \<Rightarrow> string \<Rightarrow> error + returned_config"
  collections_create :: "request list \<Rightarrow> create_config \<Rightarrow> error + unit"
  insertMany :: "request list \<Rightarrow> string \<Rightarrow> data_object list \<Rightarrow> error + unit"
  nearVector ::
    "request list \<Rightarrow> string \<Rightarrow> real list \<Rightarrow> near_vector_options \<Rightarrow> error + weaviate_object list"
  deleteById :: "request list \<Rightarrow> string \<Rightarrow> string \<Rightarrow> error + unit"
  collections_delete :: "request list \<Rightarrow> string \<Rightarrow> error + unit"
  aggregate_overAll :: "request list \<Rightarrow> string \<Rightarrow> error + nat"

fun is_connect :: "request \<Rightarrow> bool" where
  "is_connect (ConnectToWeaviateCloud h hs k) = True"
| "is_connect (ConnectToLocal h p g hs) = True"
| "is_connect r = False"

definition connection_attempts :: "request list \<Rightarrow> nat" where
  "connection_attempts tr = length (filter is_connect tr)"

section \<open>Asynchronous computations\<close>

text \<open>
  An \<open>async\<close> function of the wrapper, run against the trace of requests: it either is still
  suspended at an \<open>await\<close> of a pending promise (\<open>None\<close>), or has thrown
  (\<open>Some (Inl e)\<close>), or has returned (\<open>Some (Inr x)\<close>).
\<close>

type_synonym 'a io = "request list \<Rightarrow> (error + 'a) option \<times> request list"

definition return_io :: "'a \<Rightarrow> 'a io" where
  "return_io x tr = (Some (Inr x), tr)"

definition throw_io :: "error \<Rightarrow> 'a io" where
  "throw_io e tr = (Some (Inl e), tr)"

definition bind_io :: "'a io \<Rightarrow> ('a \<Rightarrow> 'b io) \<Rightarrow> 'b io" where
  "bind_io m f tr =
     (case m tr of
        (None, tr') \<Rightarrow> (None, tr')
      | (Some (Inl e), tr') \<Rightarrow> (Some (Inl e), tr')
      | (Some (Inr x), tr') \<Rightarrow> f x tr')"

text \<open>\<open>try { m } catch { h }\<close>\<close>

definition catch_io :: "'a io \<Rightarrow> 'a io \<Rightarrow> 'a io" where
  "catch_io m h tr =
     (case m tr of
        (Some (Inl e), tr') \<Rightarrow> h tr'
      | r \<Rightarrow> r)"

text \<open>One awaited call of the client library: logged, answered by the store.\<close>

definition call_store :: "request \<Rightarrow> (request list \<Rightarrow> error + 'a) \<Rightarrow> 'a io" where
  "call_store req answer tr = (Some (answer tr), tr @ [req])"

section \<open>WeaviateClientWrapper\<close>

record client_params =
  host :: string
  port :: "nat option"
  grpcPort :: "nat option"
  secure :: "bool option"
  apiKey :: "string option"
  headers :: "(string \<times> string) list option"
  timeout :: "nat option"

record collection_config =
  cfg_name :: string
  cfg_description :: "string option"
  cfg_properties :: "(string \<times> string \<times> string option) list option"

datatype promise = Pending | Fulfilled | Rejected error

record wrapper =
  client :: "weaviate_client option"
  params :: client_params
  initPromise :: promise

text \<open>\<open>this.params.apiKey\<close> as a condition: an absent or empty key is falsy.\<close>

definition has_apiKey :: "client_params \<Rightarrow> bool" where
  "has_apiKey p = (case apiKey p of None \<Rightarrow> False | Some k \<Rightarrow> k \<noteq> [])"

text \<open>
  \<open>initialize\<close> up to its \<open>await\<close>: an \<open>async\<close> function runs synchronously until
  the first \<open>await\<close>, whose operand, the call of \<open>connectToWeaviateCloud\<close> or of
  \<open>connectToLocal\<close>, is evaluated before the function suspends.
\<close>

definition initialize_request :: "client_params \<Rightarrow> request" where
  "initialize_request p =
     (if has_apiKey p
      then ConnectToWeaviateCloud (host p) (headers p) (apiKey p)
      else ConnectToLocal (host p)
             (case port p of None \<Rightarrow> 8080 | Some n \<Rightarrow> n)
             (case grpcPort p of None \<Rightarrow> 50051 | Some n \<Rightarrow> n)
             (headers p))"

text \<open>The constructor: \<open>this.params = params; this.initPromise = this.initialize()\<close>.\<close>

definition new_wrapper :: "client_params \<Rightarrow> request list \<Rightarrow> wrapper \<times> request list" where
  "new_wrapper p tr =
     (\<lparr>client = None, params = p, initPromise = Pending\<rparr>, tr @ [initialize_request p])"

text \<open>
  The rest of \<open>initialize\<close>, run when the connection attempt resolves: on success
  \<open>this.client\<close> is assigned and the promise fulfils, on failure the promise rejects.
  A settled promise stays as it is.
\<close>

definition settle :: "error + weaviate_client \<Rightarrow> wrapper \<Rightarrow> wrapper" where
  "settle outcome w =
     (case initPromise w of
        Pending \<Rightarrow>
          (case outcome of
             Inl e \<Rightarrow> w\<lparr>initPromise := Rejected e\<rparr>
           | Inr c \<Rightarrow> w\<lparr>client := Some c, initPromise := Fulfilled\<rparr>)
      | _ \<Rightarrow> w)"

text \<open>\<open>ensureInitialized\<close>: \<open>await this.initPromise\<close>.\<close>

definition ensureInitialized :: "wrapper \<Rightarrow> unit io" where
  "ensureInitialized w tr =
     (case initPromise w of
        Pending \<Rightarrow> (None, tr)
      | Fulfilled \<Rightarrow> (Some (Inr ()), tr)
      | Rejected e \<Rightarrow> (Some (Inl e), tr))"

definition getClient :: "wrapper \<Rightarrow> weaviate_client option io" where
  "getClient w = bind_io (ensureInitialized w) (\<lambda>_. return_io (client w))"

definition collectionExists :: "backend \<Rightarrow> wrapper \<Rightarrow> string \<Rightarrow> bool io" where
  "collectionExists be w collectionName =
     bind_io (ensureInitialized w) (\<lambda>_.
       catch_io
         (bind_io (call_store (ConfigGet collectionName) (\<lambda>l. config_get be l collectionName))
            (\<lambda>_. return_io True))
         (return_io False))"

text \<open>The fixed arguments of \<open>this.client.collections.create\<close>.\<close>

definition create_request :: "collection_config \<Rightarrow> create_config" where
  "create_request config =
     \<lparr>cc_name = cfg_name config,
      cc_description = cfg_description config,
      cc_vectorizers = VectorizerNone,
      cc_properties =
        [\<lparr>prop_name = ''content'', prop_dataType = TEXT,
          prop_description = Some ''Document content''\<rparr>,
         \<lparr>prop_name = ''metadata'', prop_dataType = TEXT,
          prop_description = Some ''Document metadata as JSON string''\<rparr>]\<rparr>"

definition createCollection :: "backend \<Rightarrow> wrapper \<Rightarrow> collection_config \<Rightarrow> unit io" where
  "createCollection be w config =
     bind_io (ensureInitialized w) (\<lambda>_.
     bind_io (collectionExists be w (cfg_name config)) (\<lambda>exists.
       if exists then return_io ()
       else call_store (CollectionsCreate (create_request config))
              (\<lambda>l. collections_create be l (create_request config))))"

text \<open>The objects handed to \<open>insertObjects\<close>: \<open>{properties, vector, id?}\<close>.\<close>

record insert_object =
  ins_id :: "string option"
  ins_properties :: "(string \<times> string) list"
  ins_vector :: "real list"

text \<open>\<open>{...(obj.id && {id: obj.id}), properties: obj.properties, vectors: obj.vector}\<close>\<close>

definition to_data_object :: "insert_object \<Rightarrow> data_object" where
  "to_data_object obj =
     \<lparr>dat_id = (case ins_id obj of None \<Rightarrow> None | Some i \<Rightarrow> if i = [] then None else Some i),
      dat_properties = ins_properties obj,
      dat_vectors = ins_vector obj\<rparr>"

definition insertObjects ::
  "backend \<Rightarrow> wrapper \<Rightarrow> string \<Rightarrow> insert_object list \<Rightarrow> unit io" where
  "insertObjects be w collectionName objects =
     bind_io (ensureInitialized w) (\<lambda>_.
       call_store (InsertMany collectionName (map to_data_object objects))
         (\<lambda>l. insertMany be l collectionName (map to_data_object objects)))"

record search_options =
  opt_distance :: "real option"
  opt_filters :: "filter_value option"

record search_result =
  objects :: "weaviate_object list"
  total :: "nat option"

text \<open>
  The options of \<open>nearVector\<close>: the limit (10 when the argument is absent),
  \<open>returnMetadata: ["distance"]\<close>, and the distance and the filters when given.
\<close>

definition query_options :: "nat option \<Rightarrow> search_options option \<Rightarrow> near_vector_options" where
  "query_options limit options =
     \<lparr>nv_limit = (case limit of None \<Rightarrow> 10 | Some n \<Rightarrow> n),
      nv_returnMetadata = [''distance''],
      nv_distance = (case options of None \<Rightarrow> None | Some opts \<Rightarrow> opt_distance opts),
      nv_filters = (case options of None \<Rightarrow> None | Some opts \<Rightarrow> opt_filters opts)\<rparr>"

definition search ::
  "backend \<Rightarrow> wrapper \<Rightarrow> string \<Rightarrow> real list \<Rightarrow> nat option \<Rightarrow> search_options option
     \<Rightarrow> search_result io" where
  "search be w collectionName vec limit options =
     bind_io (ensureInitialized w) (\<lambda>_.
     bind_io (call_store (NearVector collectionName vec (query_options limit options))
                (\<lambda>l. nearVector be l collectionName vec (query_options limit options)))
       (\<lambda>objs. return_io \<lparr>objects = objs, total = Some (length objs)\<rparr>))"

text \<open>The loop \<open>for (const id of ids) await collection.data.deleteById(id)\<close>.\<close>

fun delete_each :: "backend \<Rightarrow> string \<Rightarrow> string list \<Rightarrow> unit io" where
  "delete_each be collectionName [] = return_io ()"
| "delete_each be collectionName (i # ids) =
     bind_io (call_store (DeleteById collectionName i) (\<lambda>l. deleteById be l collectionName i))
       (\<lambda>_. delete_each be collectionName ids)"

definition deleteObjects :: "backend \<Rightarrow> wrapper \<Rightarrow> string \<Rightarrow> string list \<Rightarrow> unit io" where
  "deleteObjects be w collectionName ids =
     bind_io (ensureInitialized w) (\<lambda>_. delete_each be collectionName ids)"

definition deleteCollection :: "backend \<Rightarrow> wrapper \<Rightarrow> string \<Rightarrow> unit io" where
  "deleteCollection be w collectionName =
     bind_io (ensureInitialized w) (\<lambda>_.
       call_store (CollectionsDelete collectionName)
         (\<lambda>l. collections_delete be l collectionName))"

record collection_stats =
  stats_name :: string
  objectCount :: nat

definition getCollectionStats :: "backend \<Rightarrow> wrapper \<Rightarrow> string \<Rightarrow> collection_stats io" where
  "getCollectionStats be w collectionName =
     bind_io (ensureInitialized w) (\<lambda>_.
     bind_io (call_store (ConfigGet collectionName) (\<lambda>l. config_get be l collectionName))
       (\<lambda>config.
     bind_io (call_store (AggregateOverAll collectionName)
                (\<lambda>l. aggregate_overAll be l collectionName))
       (\<lambda>totalCount.
          return_io \<lparr>stats_name = rc_name config, objectCount = totalCount\<rparr>)))"

text \<open>\<open>close\<close> has an empty body: it does not await the connection.\<close>

definition close :: "wrapper \<Rightarrow> unit io" where
  "close w = return_io ()"

subsection \<open>Calls of the wrapper over time\<close>

text \<open>
  The operations that await the connection, as data, and what each returns. A call made
  while the connection attempt is in flight waits; when the attempt resolves, the waiting
  calls resume in the order in which they were made. Each call is run to its end before the
  next one resumes.
\<close>

datatype call =
    CollectionExists string
  | CreateCollection collection_config
  | InsertObjects string "insert_object list"
  | Search string "real list" "nat option" "search_options option"
  | DeleteObjects string "string list"
  | DeleteCollection string
  | GetCollectionStats string
  | GetClient

datatype result =
    RBool bool
  | RVoid
  | RSearch search_result
  | RStats collection_stats
  | RClient "weaviate_client option"

fun invoke :: "backend \<Rightarrow> wrapper \<Rightarrow> call \<Rightarrow> result io" where
  "invoke be w (CollectionExists n) = bind_io (collectionExists be w n) (\<lambda>b. return_io (RBool b))"
| "invoke be w (CreateCollection c) = bind_io (createCollection be w c) (\<lambda>_. return_io RVoid)"
| "invoke be w (InsertObjects n os) = bind_io (insertObjects be w n os) (\<lambda>_. return_io RVoid)"
| "invoke be w (Search n v k opts) = bind_io (search be w n v k opts) (\<lambda>r. return_io (RSearch r))"
| "invoke be w (DeleteObjects n ids) = bind_io (deleteObjects be w n ids) (\<lambda>_. return_io RVoid)"
| "invoke be w (DeleteCollection n) = bind_io (deleteCollection be w n) (\<lambda>_. return_io RVoid)"
| "invoke be w (GetCollectionStats n) =
     bind_io (getCollectionStats be w n) (\<lambda>r. return_io (RStats r))"
| "invoke be w GetClient = bind_io (getClient w) (\<lambda>c. return_io (RClient c))"

datatype event = Invoke call | Resolve "error + weaviate_client"

record system =
  this :: wrapper
  trace :: "request list"
  waiting :: "call list"
  finished :: "(call \<times> (error + result)) list"

text \<open>A call that is made or resumes: it finishes, or it waits for the connection.\<close>

definition run_call :: "backend \<Rightarrow> call \<Rightarrow> system \<Rightarrow> system" where
  "run_call be c s =
     (case invoke be (this s) c (trace s) of
        (None, tr) \<Rightarrow> s\<lparr>trace := tr, waiting := waiting s @ [c]\<rparr>
      | (Some r, tr) \<Rightarrow> s\<lparr>trace := tr, finished := finished s @ [(c, r)]\<rparr>)"

fun step :: "backend \<Rightarrow> event \<Rightarrow> system \<Rightarrow> system" where
  "step be (Invoke c) s = run_call be c s"
| "step be (Resolve outcome) s =
     (if initPromise (this s) = Pending
      then fold (run_call be) (waiting s) (s\<lparr>this := settle outcome (this s), waiting := []\<rparr>)
      else s)"

definition construct :: "client_params \<Rightarrow> system" where
  "construct p =
     (let (w, tr) = new_wrapper p []
      in \<lparr>this = w, trace = tr, waiting = [], finished = []\<rparr>)"

definition run :: "backend \<Rightarrow> event list \<Rightarrow> system \<Rightarrow> system" where
  "run be evs s = fold (step be) evs s"

section \<open>Indexer\<close>


text \<open>\<open>x || {}\<close> on the metadata of an embedding document.\<close>

definition metadata_or_empty :: "jsvalue option \<Rightarrow> jsvalue" where
  "metadata_or_empty md = (case md of None \<Rightarrow> JObj [] | Some v \<Rightarrow> if truthy v then v else JObj [])"

text \<open>The three properties written for \<open>embeddingDocs[j]\<close>.\<close>

definition chunk_properties :: "(jsvalue \<Rightarrow> string) \<Rightarrow> document \<Rightarrow> (string \<times> string) list" where
  "chunk_properties JSON_stringify d =
     [(''content'', data d),
      (''contentType'', (case dataType d of None \<Rightarrow> [] | Some t \<Rightarrow> t)),
      (''metadata'', JSON_stringify (metadata_or_empty (doc_metadata d)))]"





section \<open>Retriever\<close>

record retriever_options =
  opt_k :: "nat option"
  ret_distance :: "real option"
  ret_filters :: "filter_value option"

definition weaviateRetriever ::
  "(string \<Rightarrow> jsvalue option) \<Rightarrow> (document \<Rightarrow> error + embedding_result list)
     \<Rightarrow> backend \<Rightarrow> wrapper \<Rightarrow> string \<Rightarrow> document \<Rightarrow> retriever_options
     \<Rightarrow> document list io" where
  "weaviateRetriever JSON_parse ai_embed be w collectionName content options =
     (case ai_embed content of
        Inl e \<Rightarrow> throw_io e
      | Inr queryEmbeddings \<Rightarrow>
          (case queryEmbeddings of
             [] \<Rightarrow> throw_io (TypeError ''Cannot read properties of undefined'')
           | q # _ \<Rightarrow>
               bind_io
                 (search be w collectionName (embedding q)
                    (Some (case opt_k options of None \<Rightarrow> 10 | Some n \<Rightarrow> n))
                    (Some \<lparr>opt_distance = ret_distance options,
                           opt_filters = ret_filters options\<rparr>))
                 (\<lambda>results.
                    case map_throwing (toDocument JSON_parse) (objects results) of
                      Inl e \<Rightarrow> throw_io e
                    | Inr documents \<Rightarrow> return_io documents)))"

section \<open>Plugin\<close>

text \<open>
  An \<open>EmbedderArgument\<close> is the name of an embedder or an embedder object.
  \<open>!collection.embedder\<close> holds of an absent embedder and of the empty name. Of an
  entry of \<open>collections\<close> the initialiser reads the name, the embedder and the options
  of the embedder; the options are opaque.
\<close>

datatype embedder_argument = EmbedderName string | EmbedderObject string

record collection_params =
  collectionName :: string
  embedder :: "embedder_argument option"
  embedderOptions :: "string option"

record plugin_params =
  clientParams :: client_params
  collections :: "collection_params list"

definition lacks_embedder :: "collection_params \<Rightarrow> bool" where
  "lacks_embedder c =
     (case embedder c of
        None \<Rightarrow> True
      | Some (EmbedderName n) \<Rightarrow> n = []
      | Some (EmbedderObject r) \<Rightarrow> False)"

text \<open>
  What \<open>ai.defineRetriever\<close> and \<open>ai.defineIndexer\<close> leave in the registry: the name
  of the action, and the collection, the embedder and the options it is bound to.
\<close>

datatype action =
    RetrieverAction string string embedder_argument "string option"
  | IndexerAction string string embedder_argument "string option"

text \<open>The two calls \<open>weaviateRetriever(...)\<close> and \<open>weaviateIndexer(...)\<close> for an entry.\<close>

definition collection_actions :: "collection_params \<Rightarrow> action list" where
  "collection_actions c =
     (case embedder c of
        None \<Rightarrow> []
      | Some e \<Rightarrow>
          [RetrieverAction (''weaviate/'' @ collectionName c) (collectionName c) e
             (embedderOptions c),
           IndexerAction (''weaviate/'' @ collectionName c) (collectionName c) e
             (embedderOptions c)])"

definition embedder_required :: "string \<Rightarrow> error" where
  "embedder_required n =
     Error (''Embedder is required for collection '' @ [CHR 0x27] @ n @ [CHR 0x27])"

text \<open>The loop \<open>for (const collection of params.collections)\<close> over the registry.\<close>

fun configure_collections ::
  "collection_params list \<Rightarrow> action list \<Rightarrow> error option \<times> action list" where
  "configure_collections [] registry = (None, registry)"
| "configure_collections (c # cs) registry =
     (if lacks_embedder c then (Some (embedder_required (collectionName c)), registry)
      else configure_collections cs (registry @ collection_actions c))"

text \<open>
  The initialiser of the plugin: a single wrapper is constructed, then the collections are
  configured. The result is the error thrown, if any, the registry, and the wrapper with
  the requests made.
\<close>

definition weaviate ::
  "plugin_params \<Rightarrow> action list \<Rightarrow> (error option \<times> action list) \<times> wrapper \<times> request list" where
  "weaviate ps registry =
     (let (w, tr) = new_wrapper (clientParams ps) []
      in (configure_collections (collections ps) registry, w, tr))"

section \<open>JSON\<close>


subsection \<open>A reference codec\<close>







fun read_string :: "string \<Rightarrow> (string \<times> string) option" where
  "read_string [] = None"
| "read_string (c # cs) =
     (if c = CHR 0x22 then Some ([], cs)
      else if c = CHR 0x5C then
        (case cs of
           [] \<Rightarrow> None
         | d # ds \<Rightarrow>
             if d = CHR 0x22 \<or> d = CHR 0x5C
             then (case read_string ds of None \<Rightarrow> None | Some (s, r) \<Rightarrow> Some (d # s, r))
             else None)
      else (case read_string cs of None \<Rightarrow> None | Some (s, r) \<Rightarrow> Some (c # s, r)))"

definition is_digit :: "char \<Rightarrow> bool" where
  "is_digit c = ((48::nat) \<le> of_char c \<and> of_char c \<le> (57::nat))"

definition digits_value :: "string \<Rightarrow> nat" where
  "digits_value ds = foldl (\<lambda>n c. 10 * n + (of_char c - 48)) 0 ds"

definition read_nat :: "string \<Rightarrow> (nat \<times> string) option" where
  "read_nat s =
     (let ds = takeWhile is_digit s
      in if ds = [] \<or> (hd ds = CHR ''0'' \<and> length ds > 1) then None
         else Some (digits_value ds, dropWhile is_digit s))"

definition read_number :: "string \<Rightarrow> (jsvalue \<times> string) option" where
  "read_number s =
     (case s of
        [] \<Rightarrow> None
      | c # cs \<Rightarrow>
          if c = CHR ''-''
          then (case read_nat cs of None \<Rightarrow> None | Some (n, r) \<Rightarrow> Some (JNum (- real n), r))
          else (case read_nat s of None \<Rightarrow> None | Some (n, r) \<Rightarrow> Some (JNum (real n), r)))"

fun read_value :: "nat \<Rightarrow> string \<Rightarrow> (jsvalue \<times> string) option"
  and read_elements :: "nat \<Rightarrow> jsvalue list \<Rightarrow> string \<Rightarrow> (jsvalue \<times> string) option"
  and read_members :: "nat \<Rightarrow> (string \<times> jsvalue) list \<Rightarrow> string \<Rightarrow> (jsvalue \<times> string) option"
where
  "read_value 0 s = None"
| "read_value (Suc n) s =
     (case s of
        [] \<Rightarrow> None
      | c # cs \<Rightarrow>
          if c = CHR ''n'' then (if take 3 cs = ''ull'' then Some (JNull, drop 3 cs) else None)
          else if c = CHR ''t'' then
            (if take 3 cs = ''rue'' then Some (JBool True, drop 3 cs) else None)
          else if c = CHR ''f'' then
            (if take 4 cs = ''alse'' then Some (JBool False, drop 4 cs) else None)
          else if c = CHR 0x22 then
            (case read_string cs of None \<Rightarrow> None | Some (str, r) \<Rightarrow> Some (JStr str, r))
          else if c = CHR ''['' then
            (case cs of
               [] \<Rightarrow> None
             | d # ds \<Rightarrow> if d = CHR '']'' then Some (JArr [] [], ds) else read_elements n [] cs)
          else if c = CHR ''{'' then
            (case cs of
               [] \<Rightarrow> None
             | d # ds \<Rightarrow> if d = CHR ''}'' then Some (JObj [], ds) else read_members n [] cs)
          else read_number s)"
| "read_elements 0 acc s = None"
| "read_elements (Suc n) acc s =
     (case read_value n s of
        None \<Rightarrow> None
      | Some (v, r) \<Rightarrow>
          (case r of
             [] \<Rightarrow> None
           | c # cs \<Rightarrow>
               if c = CHR '','' then read_elements n (acc @ [v]) cs
               else if c = CHR '']'' then Some (JArr (acc @ [v]) [], cs)
               else None))"
| "read_members 0 acc s = None"
| "read_members (Suc n) acc s =
     (case s of
        [] \<Rightarrow> None
      | q # s1 \<Rightarrow>
          if q \<noteq> CHR 0x22 then None
          else (case read_string s1 of
                  None \<Rightarrow> None
                | Some (key, s2) \<Rightarrow>
                    (case s2 of
                       [] \<Rightarrow> None
                     | c # s3 \<Rightarrow>
                         if c \<noteq> CHR '':'' then None
                         else (case read_value n s3 of
                                 None \<Rightarrow> None
                               | Some (v, r) \<Rightarrow>
                                   (case r of
                                      [] \<Rightarrow> None
                                    | c # cs \<Rightarrow>
                                        if c = CHR '','' then read_members n (AList.update key v acc) cs
                                        else if c = CHR ''}'' then Some (JObj (AList.update key v acc), cs)
                                        else None)))))"

definition json_read :: "string \<Rightarrow> jsvalue option" where
  "json_read s = (case read_value (Suc (length s)) s of Some (v, []) \<Rightarrow> Some v | _ \<Rightarrow> None)"



definition ends_number :: "string \<Rightarrow> bool" where
  "ends_number rest = (case rest of [] \<Rightarrow> True | c # cs \<Rightarrow> \<not> is_digit c)"

section \<open>Sample inputs\<close>

text \<open>
  A local configuration with every optional field absent, and a store that begins empty:
  the configuration of a collection is found once the collection has been created, every
  write is accepted, a query returns nothing.
\<close>

definition sample_params :: client_params where
  "sample_params =
     \<lparr>host = ''localhost'', port = None, grpcPort = None, secure = None, apiKey = None,
      headers = None, timeout = None\<rparr>"

fun created_names :: "request list \<Rightarrow> string list" where
  "created_names [] = []"
| "created_names (CollectionsCreate c # tr) = cc_name c # created_names tr"
| "created_names (q # tr) = created_names tr"

definition fresh_store :: backend where
  "fresh_store =
     \<lparr>config_get = (\<lambda>tr n. if n \<in> set (created_names tr) then Inr \<lparr>rc_name = n\<rparr>
                              else Inl (Error ''collection not found'')),
      collections_create = (\<lambda>tr c. Inr ()),
      insertMany = (\<lambda>tr n batch. Inr ()),
      nearVector = (\<lambda>tr n v opts. Inr []),
      deleteById = (\<lambda>tr n i. Inr ()),
      collections_delete = (\<lambda>tr n. Inr ()),
      aggregate_overAll = (\<lambda>tr n. Inr 0)\<rparr>"





section \<open>Properties of the trace\<close>

text \<open>
  A run from \<open>tr\<close> to \<open>tr1\<close> that only adds requests, none of them a connection
  attempt; and a computation that does not stay suspended.
\<close>

definition appends_only_store_requests :: "request list \<Rightarrow> request list \<Rightarrow> bool" where
  "appends_only_store_requests tr tr1 =
     (\<exists>new. tr1 = tr @ new \<and> (\<forall>q \<in> set new. \<not> is_connect q))"


section \<open>The reference codec is exact\<close>

subsection \<open>Strings\<close>



subsection \<open>Numbers\<close>


lemma digit_value_char_of: "(d::nat) < 10 \<Longrightarrow> of_char (char_of (48 + d)) - 48 = (d::nat)"
  by simp












subsection \<open>Values\<close>

lemma ends_number_simps [simp]:
  "ends_number []" "ends_number (CHR '','' # s)" "ends_number (CHR '']'' # s)"
  "ends_number (CHR ''}'' # s)"
  by (simp_all add: ends_number_def is_digit_def)















section \<open>The connection\<close>

subsection \<open>Operations add store requests only\<close>

lemma appends_refl: "appends_only_store_requests tr tr"
  by (simp add: appends_only_store_requests_def)

lemma appends_trans:
  "appends_only_store_requests a b \<Longrightarrow> appends_only_store_requests b c
     \<Longrightarrow> appends_only_store_requests a c"
  by (auto simp: appends_only_store_requests_def)

lemma appends_attempts:
  "appends_only_store_requests tr tr1 \<Longrightarrow> connection_attempts tr1 = connection_attempts tr"
  by (auto simp: appends_only_store_requests_def connection_attempts_def)

lemma appends_one: "\<not> is_connect q \<Longrightarrow> appends_only_store_requests tr (tr @ [q])"
  by (simp add: appends_only_store_requests_def)

lemma bind_io_appends:
  assumes "\<And>r tr1. m tr = (r, tr1) \<Longrightarrow> appends_only_store_requests tr tr1"
    and "\<And>x t r tr1. f x t = (r, tr1) \<Longrightarrow> appends_only_store_requests t tr1"
    and "bind_io m f tr = (r, tr1)"
  shows "appends_only_store_requests tr tr1"
proof -
  obtain r0 tr0 where m: "m tr = (r0, tr0)" by (cases "m tr")
  from assms(1) [OF m] have a: "appends_only_store_requests tr tr0" .
  show ?thesis
  proof (cases "\<exists>x. r0 = Some (Inr x)")
    case True
    then obtain x where "r0 = Some (Inr x)" by blast
    with m assms(3) have "f x tr0 = (r, tr1)" by (simp add: bind_io_def)
    from assms(2) [OF this] a show ?thesis by (rule appends_trans [rotated])
  next
    case False
    with m assms(3) have "tr1 = tr0"
      by (auto simp: bind_io_def split: option.splits sum.splits)
    with a show ?thesis by simp
  qed
qed

lemma ensureInitialized_trace: "ensureInitialized w tr = (r, tr1) \<Longrightarrow> tr1 = tr"
  by (cases "initPromise w") (auto simp: ensureInitialized_def)

lemma ensureInitialized_appends:
  "ensureInitialized w tr = (r, tr1) \<Longrightarrow> appends_only_store_requests tr tr1"
  by (auto dest: ensureInitialized_trace simp: appends_refl)

lemma return_io_appends: "return_io x tr = (r, tr1) \<Longrightarrow> appends_only_store_requests tr tr1"
  by (auto simp: return_io_def appends_refl)

lemma call_store_appends:
  "\<not> is_connect q \<Longrightarrow> call_store q a tr = (r, tr1) \<Longrightarrow> appends_only_store_requests tr tr1"
  by (auto simp: call_store_def appends_one)

lemma catch_io_appends:
  assumes "\<And>r tr1. m tr = (r, tr1) \<Longrightarrow> appends_only_store_requests tr tr1"
    and "\<And>t r tr1. h t = (r, tr1) \<Longrightarrow> appends_only_store_requests t tr1"
    and "catch_io m h tr = (r, tr1)"
  shows "appends_only_store_requests tr tr1"
proof -
  obtain r0 tr0 where m: "m tr = (r0, tr0)" by (cases "m tr")
  from assms(1) [OF m] have a: "appends_only_store_requests tr tr0" .
  show ?thesis
  proof (cases "\<exists>e. r0 = Some (Inl e)")
    case True
    with m assms(3) have "h tr0 = (r, tr1)" by (auto simp: catch_io_def)
    from assms(2) [OF this] a show ?thesis by (rule appends_trans [rotated])
  next
    case False
    with m assms(3) have "tr1 = tr0"
      by (auto simp: catch_io_def split: option.splits sum.splits)
    with a show ?thesis by simp
  qed
qed

lemma collectionExists_appends:
  "collectionExists be w n tr = (r, tr1) \<Longrightarrow> appends_only_store_requests tr tr1"
  unfolding collectionExists_def
  by (erule bind_io_appends [rotated 2])
    (auto elim!: ensureInitialized_appends catch_io_appends [rotated 2]
      bind_io_appends [rotated 2] call_store_appends [rotated] return_io_appends)

lemma createCollection_appends:
  "createCollection be w cfg tr = (r, tr1) \<Longrightarrow> appends_only_store_requests tr tr1"
  unfolding createCollection_def
  by (erule bind_io_appends [rotated 2])
    (auto elim!: ensureInitialized_appends collectionExists_appends
      bind_io_appends [rotated 2] call_store_appends [rotated] return_io_appends
      split: if_splits)

lemma insertObjects_appends:
  "insertObjects be w n objs tr = (r, tr1) \<Longrightarrow> appends_only_store_requests tr tr1"
  unfolding insertObjects_def
  by (erule bind_io_appends [rotated 2])
    (auto elim!: ensureInitialized_appends call_store_appends [rotated])

lemma search_appends:
  "search be w n v lmt opts tr = (r, tr1) \<Longrightarrow> appends_only_store_requests tr tr1"
  unfolding search_def
  by (erule bind_io_appends [rotated 2])
    (auto elim!: ensureInitialized_appends bind_io_appends [rotated 2]
      call_store_appends [rotated] return_io_appends)

lemma delete_each_appends:
  "delete_each be n ids tr = (r, tr1) \<Longrightarrow> appends_only_store_requests tr tr1"
proof (induction ids arbitrary: tr r tr1)
  case Nil
  then show ?case by (auto elim: return_io_appends)
next
  case (Cons i ids)
  from Cons.prems show ?case
    unfolding delete_each.simps
    by (rule bind_io_appends [rotated 2])
      (auto elim!: call_store_appends [rotated] intro: Cons.IH)
qed

lemma deleteObjects_appends:
  "deleteObjects be w n ids tr = (r, tr1) \<Longrightarrow> appends_only_store_requests tr tr1"
  unfolding deleteObjects_def
  by (erule bind_io_appends [rotated 2])
    (auto elim!: ensureInitialized_appends delete_each_appends)

lemma deleteCollection_appends:
  "deleteCollection be w n tr = (r, tr1) \<Longrightarrow> appends_only_store_requests tr tr1"
  unfolding deleteCollection_def
  by (erule bind_io_appends [rotated 2])
    (auto elim!: ensureInitialized_appends call_store_appends [rotated])

lemma getCollectionStats_appends:
  "getCollectionStats be w n tr = (r, tr1) \<Longrightarrow> appends_only_store_requests tr tr1"
  unfolding getCollectionStats_def
  by (erule bind_io_appends [rotated 2])
    (auto elim!: ensureInitialized_appends bind_io_appends [rotated 2]
      call_store_appends [rotated] return_io_appends)

lemma getClient_appends:
  "getClient w tr = (r, tr1) \<Longrightarrow> appends_only_store_requests tr tr1"
  unfolding getClient_def
  by (erule bind_io_appends [rotated 2])
    (auto elim!: ensureInitialized_appends return_io_appends)

lemma invoke_appends:
  "invoke be w c tr = (r, tr1) \<Longrightarrow> appends_only_store_requests tr tr1"
  by (cases c; simp; erule bind_io_appends [rotated 2])
    (auto elim!: collectionExists_appends createCollection_appends insertObjects_appends
      search_appends deleteObjects_appends deleteCollection_appends getCollectionStats_appends
      getClient_appends return_io_appends)



lemma bind_io_fulfilled:
  "initPromise w = Fulfilled \<Longrightarrow> bind_io (ensureInitialized w) f tr = f () tr"
  by (simp add: bind_io_def ensureInitialized_def)













subsection \<open>The event machine\<close>




lemma run_call_attempts:
  "connection_attempts (trace (run_call be c s)) = connection_attempts (trace s)"
proof -
  obtain r tr1 where i: "invoke be (this s) c (trace s) = (r, tr1)"
    by (cases "invoke be (this s) c (trace s)")
  from appends_attempts [OF invoke_appends [OF i]] i show ?thesis
    by (cases r) (simp_all add: run_call_def)
qed

lemma run_call_this: "this (run_call be c s) = this s"
  by (simp add: run_call_def split: prod.splits option.splits)

lemma fold_run_call_attempts:
  "connection_attempts (trace (fold (run_call be) cs s)) = connection_attempts (trace s)"
  by (induction cs arbitrary: s) (simp_all add: run_call_attempts)

lemma step_attempts:
  "connection_attempts (trace (step be ev s)) = connection_attempts (trace s)"
  by (cases ev) (simp_all add: run_call_attempts fold_run_call_attempts)


lemma construct_attempts: "connection_attempts (trace (construct p)) = 1"
  by (simp add: construct_def new_wrapper_def connection_attempts_def initialize_request_def)




subsection \<open>One attempt, awaited by every operation\<close>


text \<open>
  Claim C4, as amended. The connection is not lazy: the constructor itself makes the one
  connection attempt, before any operation is invoked, and leaves the promise pending. No
  operation and no later event makes another attempt.
\<close>

theorem eager_connection:
  "snd (new_wrapper p tr) = tr @ [initialize_request p] \<and>
   is_connect (initialize_request p) \<and>
   initPromise (fst (new_wrapper p tr)) = Pending \<and>
   connection_attempts (trace (construct p)) = 1 \<and>
   connection_attempts (snd (invoke be w c tr)) = connection_attempts tr \<and>
   connection_attempts (trace (step be ev s)) = connection_attempts (trace s)"
proof (intro conjI)
  obtain r tr1 where i: "invoke be w c tr = (r, tr1)" by (cases "invoke be w c tr")
  from appends_attempts [OF invoke_appends [OF i]] i
  show "connection_attempts (snd (invoke be w c tr)) = connection_attempts tr" by simp
qed (simp_all add: new_wrapper_def initialize_request_def construct_attempts step_attempts)

text \<open>
  Against C4 as stated: a wrapper that has just been constructed, with no operation
  invoked, has already sent its connection request.
\<close>

theorem lazy_connection_counterexample:
  "waiting (construct sample_params) = [] \<and> finished (construct sample_params) = [] \<and>
   trace (construct sample_params) = [ConnectToLocal ''localhost'' 8080 50051 None] \<and>
   connection_attempts (trace (construct sample_params)) = 1"
  by (simp add: construct_def new_wrapper_def initialize_request_def sample_params_def
      has_apiKey_def connection_attempts_def)

text \<open>
  Claim C8, as amended. Once the connection is established, \<open>collectionExists\<close> returns
  a boolean and does not throw: it is \<open>true\<close> when the lookup of the configuration
  succeeds and \<open>false\<close> on any failure of the lookup. When the connection attempt has
  failed, \<open>collectionExists\<close> throws the error of that attempt.
\<close>

theorem collectionExists_after_connection:
  "(initPromise w = Fulfilled \<longrightarrow>
      collectionExists be w n tr
        = (Some (Inr (case config_get be tr n of Inl e \<Rightarrow> False | Inr c \<Rightarrow> True)),
           tr @ [ConfigGet n])) \<and>
   (initPromise w = Rejected e \<longrightarrow> collectionExists be w n tr = (Some (Inl e), tr))"
  by (cases "config_get be tr n")
    (simp_all add: collectionExists_def bind_io_def catch_io_def call_store_def
      ensureInitialized_def return_io_def)

theorem collectionExists_after_connection_witness:
  "initPromise \<lparr>client = Some (WeaviateClient 1), params = sample_params,
                initPromise = Fulfilled\<rparr> = Fulfilled \<and>
   collectionExists fresh_store
     \<lparr>client = Some (WeaviateClient 1), params = sample_params, initPromise = Fulfilled\<rparr>
     ''Documents'' [initialize_request sample_params]
     = (Some (Inr False), [initialize_request sample_params, ConfigGet ''Documents'']) \<and>
   initPromise \<lparr>client = None, params = sample_params,
                initPromise = Rejected (Error ''connect ECONNREFUSED'')\<rparr>
     = Rejected (Error ''connect ECONNREFUSED'') \<and>
   collectionExists fresh_store
     \<lparr>client = None, params = sample_params,
      initPromise = Rejected (Error ''connect ECONNREFUSED'')\<rparr>
     ''Documents'' [initialize_request sample_params]
     = (Some (Inl (Error ''connect ECONNREFUSED'')), [initialize_request sample_params])"
  using collectionExists_after_connection
      [of "\<lparr>client = Some (WeaviateClient 1), params = sample_params, initPromise = Fulfilled\<rparr>"
        fresh_store "''Documents''" "[initialize_request sample_params]"]
    collectionExists_after_connection
      [of "\<lparr>client = None, params = sample_params,
            initPromise = Rejected (Error ''connect ECONNREFUSED'')\<rparr>"
        fresh_store "''Documents''" "[initialize_request sample_params]"
        "Error ''connect ECONNREFUSED''"]
  by (simp add: fresh_store_def initialize_request_def sample_params_def has_apiKey_def)

text \<open>
  Against C8 as stated: \<open>collectionExists\<close>, called on a wrapper whose connection
  attempt then fails, ends with the error of the attempt.
\<close>

theorem collectionExists_counterexample:
  "finished (run fresh_store
      [Invoke (CollectionExists ''Documents''), Resolve (Inl (Error ''connect ECONNREFUSED''))]
      (construct sample_params))
   = [(CollectionExists ''Documents'', Inl (Error ''connect ECONNREFUSED''))]"
  by (simp add: run_def construct_def new_wrapper_def run_call_def collectionExists_def
      bind_io_def ensureInitialized_def settle_def)

text \<open>
  Claim C2. On a store without the collection, \<open>createCollection\<close> asks for the
  collection with the vectorizer set to none and with two properties, \<open>content\<close> and
  \<open>metadata\<close>, both of type text; \<open>contentType\<close>, the third property the indexer
  writes on every object, is not declared.
\<close>

theorem createCollection_schema:
  "createCollection fresh_store
     \<lparr>client = Some (WeaviateClient 1), params = sample_params, initPromise = Fulfilled\<rparr>
     \<lparr>cfg_name = ''Documents'', cfg_description = None, cfg_properties = None\<rparr>
     [initialize_request sample_params]
   = (Some (Inr ()),
      [initialize_request sample_params, ConfigGet ''Documents'',
       CollectionsCreate
         \<lparr>cc_name = ''Documents'', cc_description = None, cc_vectorizers = VectorizerNone,
          cc_properties =
            [\<lparr>prop_name = ''content'', prop_dataType = TEXT,
              prop_description = Some ''Document content''\<rparr>,
             \<lparr>prop_name = ''metadata'', prop_dataType = TEXT,
              prop_description = Some ''Document metadata as JSON string''\<rparr>]\<rparr>]) \<and>
   map prop_name (cc_properties (create_request cfg)) = [''content'', ''metadata''] \<and>
   cc_vectorizers (create_request cfg) = VectorizerNone \<and>
   map fst (chunk_properties JSON_stringify d) = [''content'', ''contentType'', ''metadata'']"
  by (simp add: createCollection_def collectionExists_def bind_io_def catch_io_def
      call_store_def ensureInitialized_def return_io_def create_request_def fresh_store_def
      initialize_request_def sample_params_def has_apiKey_def chunk_properties_def)

section \<open>Indexing\<close>












section \<open>Retrieval\<close>

lemma map_throwing_total:
  assumes "\<forall>x \<in> set xs. \<exists>y. f x = Inr y"
  shows "\<exists>ys. map_throwing f xs = Inr ys \<and> length ys = length xs"
  using assms by (induction xs) auto

lemma weaviateRetriever_documents:
  assumes "initPromise w = Fulfilled" and "ai_embed q = Inr (e # es)"
    and "nearVector be tr n (embedding e)
           (query_options (Some (case opt_k opts of None \<Rightarrow> 10 | Some lmt \<Rightarrow> lmt))
              (Some \<lparr>opt_distance = ret_distance opts, opt_filters = ret_filters opts\<rparr>))
         = Inr objs"
  shows "weaviateRetriever P ai_embed be w n q opts tr =
     (Some (map_throwing (toDocument P) objs),
      tr @ [NearVector n (embedding e)
              (query_options (Some (case opt_k opts of None \<Rightarrow> 10 | Some lmt \<Rightarrow> lmt))
                 (Some \<lparr>opt_distance = ret_distance opts, opt_filters = ret_filters opts\<rparr>))])"
  using assms
  by (cases "map_throwing (toDocument P) objs")
    (simp_all add: weaviateRetriever_def search_def bind_io_def ensureInitialized_def
      call_store_def return_io_def throw_io_def)





lemma parseMetadata_cases:
  "parseMetadata P props =
     (case map_of props ''metadata'' of
        None \<Rightarrow> None
      | Some s \<Rightarrow> if s = [] then None
                  else (case P s of Some v \<Rightarrow> Some v | None \<Rightarrow> Some (JObj [(''metadata'', JStr s)])))"
  by (simp add: parseMetadata_def)

text \<open>
  Claim C6, as amended. A result whose stored metadata is a non-empty string that does not
  parse does not make the retriever fail: its document carries the raw string under the key
  \<open>metadata\<close>, alone when the store reports no distance, and followed by the key
  \<open>_distance\<close> when the store reports one.
\<close>

theorem unparsable_metadata_is_wrapped:
  assumes "map_of (obj_properties obj) ''metadata'' = Some s" and "s \<noteq> []"
    and "JSON_parse s = None"
  shows "toDocument JSON_parse obj =
     Inr (fromData (prop_or_empty (obj_properties obj) ''content'')
            (prop_or_empty (obj_properties obj) ''contentType'')
            (Some (case reported_distance obj of
                     None \<Rightarrow> JObj [(''metadata'', JStr s)]
                   | Some d \<Rightarrow> JObj [(''metadata'', JStr s), (''_distance'', JNum d)])))"
  using assms by (simp add: toDocument_def parseMetadata_def Let_def split: option.splits)

theorem unparsable_metadata_is_wrapped_witness:
  \<open>map_of [(''content'', ''text''), (''contentType'', ''text''), (''metadata'', ''not json'')]
      ''metadata'' = Some ''not json'' \<and> ''not json'' \<noteq> [] \<and> json_read ''not json'' = None \<and>
   toDocument json_read
     \<lparr>uuid = ''id-1'',
      obj_properties = [(''content'', ''text''), (''contentType'', ''text''), (''metadata'', ''not json'')],
      obj_metadata = None\<rparr>
   = Inr (fromData ''text'' ''text'' (Some (JObj [(''metadata'', JStr ''not json'')])))\<close>
proof -
  have p: \<open>json_read ''not json'' = None\<close>
    by (simp add: json_read_def read_number_def read_nat_def is_digit_def)
  have m: \<open>map_of (obj_properties \<lparr>uuid = ''id-1'',
      obj_properties = [(''content'', ''text''), (''contentType'', ''text''), (''metadata'', ''not json'')],
      obj_metadata = None\<rparr>) ''metadata'' = Some ''not json''\<close> by simp
  have n: \<open>''not json'' \<noteq> []\<close> by simp
  show ?thesis
    using unparsable_metadata_is_wrapped [where JSON_parse = json_read, OF m n p] p
    by (simp add: prop_or_empty_def reported_distance_def)
qed

text \<open>
  Against C6 as stated: with a distance reported, the metadata of the document is not the
  wrapped string alone.
\<close>

theorem unparsable_metadata_counterexample:
  \<open>json_read ''not json'' = None \<and>
   toDocument json_read
     \<lparr>uuid = ''id-1'',
      obj_properties = [(''content'', ''text''), (''contentType'', ''text''), (''metadata'', ''not json'')],
      obj_metadata = Some \<lparr>distance = Some (1 / 4)\<rparr>\<rparr>
   = Inr (fromData ''text'' ''text''
            (Some (JObj [(''metadata'', JStr ''not json''), (''_distance'', JNum (1 / 4))]))) \<and>
   JObj [(''metadata'', JStr ''not json''), (''_distance'', JNum (1 / 4))]
     \<noteq> JObj [(''metadata'', JStr ''not json'')]\<close>
  by (simp add: json_read_def read_number_def read_nat_def is_digit_def toDocument_def
      parseMetadata_def prop_or_empty_def reported_distance_def Let_def)
















section \<open>Plugin setup\<close>

lemma configure_collections_all_present:
  assumes "\<forall>c \<in> set cs. \<not> lacks_embedder c"
  shows "configure_collections cs registry
           = (None, registry @ concat (map collection_actions cs))"
  using assms by (induction cs arbitrary: registry) simp_all

lemma configure_collections_first_missing:
  assumes "\<forall>c \<in> set before. \<not> lacks_embedder c" and "lacks_embedder c"
  shows "configure_collections (before @ c # after) registry =
     (Some (embedder_required (collectionName c)),
      registry @ concat (map collection_actions before))"
  using assms by (induction before arbitrary: registry) simp_all

lemma some_missing_embedder_fails:
  assumes "\<exists>c \<in> set cs. lacks_embedder c"
  shows "\<exists>c \<in> set cs. lacks_embedder c \<and>
           fst (configure_collections cs registry) = Some (embedder_required (collectionName c))"
  using assms by (induction cs arbitrary: registry) auto

lemma collection_actions_names:
  "\<not> lacks_embedder c \<Longrightarrow> \<exists>e. embedder c = Some e \<and>
     collection_actions c =
       [RetrieverAction (''weaviate/'' @ collectionName c) (collectionName c) e
          (embedderOptions c),
        IndexerAction (''weaviate/'' @ collectionName c) (collectionName c) e
          (embedderOptions c)]"
  by (auto simp: lacks_embedder_def collection_actions_def split: option.splits)

text \<open>
  Claim C9, as amended. When a collection entry lacks an embedder, the initialiser of the
  plugin fails with an error that names the first such entry of the array; the retrievers
  and indexers registered by then are those of the entries before it, so none is
  registered for an entry without an embedder.
\<close>

theorem missing_embedder_fails_setup:
  assumes "i < length (collections ps)"
    and "lacks_embedder (collections ps ! i)"
    and "\<forall>j < i. \<not> lacks_embedder (collections ps ! j)"
  shows "fst (weaviate ps registry) =
     (Some (embedder_required (collectionName (collections ps ! i))),
      registry @ concat (map collection_actions (take i (collections ps))))"
proof -
  let ?cs = "collections ps"
  have cs: "?cs = take i ?cs @ ?cs ! i # drop (Suc i) ?cs"
    using assms(1) by (rule id_take_nth_drop)
  have "\<forall>c \<in> set (take i ?cs). \<not> lacks_embedder c"
    using assms(1,3) by (auto simp: in_set_conv_nth)
  from configure_collections_first_missing [OF this assms(2), of "drop (Suc i) ?cs" registry] cs
  have "configure_collections ?cs registry =
     (Some (embedder_required (collectionName (?cs ! i))),
      registry @ concat (map collection_actions (take i ?cs)))"
    by simp
  then show ?thesis by (simp add: weaviate_def new_wrapper_def)
qed

theorem missing_embedder_fails_setup_witness:
  "(1::nat) < length (collections
      \<lparr>clientParams = sample_params,
       collections =
         [\<lparr>collectionName = ''A'', embedder = Some (EmbedderName ''e''), embedderOptions = None\<rparr>,
          \<lparr>collectionName = ''B'', embedder = None, embedderOptions = None\<rparr>]\<rparr>) \<and>
   lacks_embedder \<lparr>collectionName = ''B'', embedder = None, embedderOptions = None\<rparr> \<and>
   \<not> lacks_embedder
       \<lparr>collectionName = ''A'', embedder = Some (EmbedderName ''e''), embedderOptions = None\<rparr> \<and>
   fst (weaviate
      \<lparr>clientParams = sample_params,
       collections =
         [\<lparr>collectionName = ''A'', embedder = Some (EmbedderName ''e''), embedderOptions = None\<rparr>,
          \<lparr>collectionName = ''B'', embedder = None, embedderOptions = None\<rparr>]\<rparr> [])
   = (Some (embedder_required ''B''),
      [RetrieverAction ''weaviate/A'' ''A'' (EmbedderName ''e'') None,
       IndexerAction ''weaviate/A'' ''A'' (EmbedderName ''e'') None])"
proof -
  let ?ps = "\<lparr>clientParams = sample_params,
       collections =
         [\<lparr>collectionName = ''A'', embedder = Some (EmbedderName ''e''), embedderOptions = None\<rparr>,
          \<lparr>collectionName = ''B'', embedder = None, embedderOptions = None\<rparr>]\<rparr>"
  have a1: "1 < length (collections ?ps)" by simp
  have a2: "lacks_embedder (collections ?ps ! 1)" by (simp add: lacks_embedder_def)
  have a3: "\<forall>j < 1. \<not> lacks_embedder (collections ?ps ! j)" by (simp add: lacks_embedder_def)
  show ?thesis
    using missing_embedder_fails_setup [OF a1 a2 a3, of "[]"] a1
    by (simp add: lacks_embedder_def collection_actions_def)
qed

text \<open>
  Against C9 as stated: of two entries without an embedder, the error names the first and
  not the second.
\<close>

theorem missing_embedder_counterexample:
  "lacks_embedder \<lparr>collectionName = ''B'', embedder = None, embedderOptions = None\<rparr> \<and>
   fst (fst (weaviate
      \<lparr>clientParams = sample_params,
       collections =
         [\<lparr>collectionName = ''A'', embedder = None, embedderOptions = None\<rparr>,
          \<lparr>collectionName = ''B'', embedder = None, embedderOptions = None\<rparr>]\<rparr> []))
     = Some (embedder_required ''A'') \<and>
   embedder_required ''A'' \<noteq> embedder_required ''B''"
  by (simp add: weaviate_def new_wrapper_def lacks_embedder_def embedder_required_def)

end
